theory Spec2Isabelle
  imports Complex_Main
begin

section \<open>Errors, scalars and arrays\<close>

text \<open>
  Exceptions by their Python class, with the message (for the messages of JAX, the words
  they start with). The notebook has one \<^verbatim>\<open>raise\<close> statement of its own,
  \<^verbatim>\<open>ValueError(f'Unknown mode: {mode}')\<close> in the dispatch cell; every other exception
  is raised inside a call into JAX, flax or Python itself, and JAX raises
  \<^verbatim>\<open>ValueError\<close>s of its own. \<open>ShapeError\<close> stands for the errors of flax when the
  parameters do not fit the module or its input.
\<close>

datatype error =
    ValueError string
  | TypeError string
  | NameError string
  | ZeroDivisionError
  | ShapeError

text \<open>
  Array elements are real numbers: rounding, overflow to infinity and the not-a-numbers
  that follow from it in the 32-bit floats are not modelled. The one non-number kept is the
  result of \<^verbatim>\<open>jnp.mean\<close> on an array without elements, which is 0/0 in JAX and not the 0
  that division by zero gives in HOL. So \<open>NaN\<close> here is a not-a-number of the code, and
  \<open>Fin v\<close> is the code's value up to rounding when no intermediate value overflows.
\<close>

datatype scalar = Fin real | NaN

datatype sharding =
    SingleDeviceSharding
  | NamedSharding nat "string list" "string list"

text \<open>
  An array is its shape and its elements in row-major order; \<open>NamedSharding n axes spec\<close>
  is a mesh of \<open>n\<close> devices with the axis names \<open>axes\<close> and a partition spec.
\<close>

record array =
  shape :: "nat list"
  data :: "real list"
  sharding :: sharding

definition jnp_ones :: "nat list \<Rightarrow> array" where
  "jnp_ones shp = \<lparr>shape = shp, data = replicate (prod_list shp) 1, sharding = SingleDeviceSharding\<rparr>"

definition jnp_reshape :: "array \<Rightarrow> nat list \<Rightarrow> error + array" where
  "jnp_reshape x new_shape =
     (if prod_list new_shape = prod_list (shape x) then Inr (x\<lparr>shape := new_shape\<rparr>)
      else Inl (TypeError ''cannot reshape array''))"

definition chunk :: "nat \<Rightarrow> nat \<Rightarrow> 'a list \<Rightarrow> 'a list" where
  "chunk c i xs = take c (drop (i * c) xs)"

definition rows_of :: "array \<Rightarrow> real list list" where
  \<comment> \<open>the vectors along the last axis\<close>
  "rows_of x = map (\<lambda>i. chunk (last (shape x)) i (data x)) [0..<prod_list (butlast (shape x))]"

definition row_map :: "(real list \<Rightarrow> real list) \<Rightarrow> nat \<Rightarrow> array \<Rightarrow> array" where
  \<comment> \<open>a function of the last axis, applied to every vector along it\<close>
  "row_map f out x =
     \<lparr>shape = butlast (shape x) @ [out], data = concat (map f (rows_of x)), sharding = sharding x\<rparr>"

definition index0 :: "array \<Rightarrow> nat \<Rightarrow> array" where
  \<comment> \<open>\<^verbatim>\<open>x[i]\<close> along the leading axis\<close>
  "index0 x i = x\<lparr>shape := tl (shape x), data := chunk (prod_list (tl (shape x))) i (data x)\<rparr>"

subsection \<open>Broadcasting arithmetic\<close>

fun broadcast_rev :: "nat list \<Rightarrow> nat list \<Rightarrow> nat list option" where
  "broadcast_rev [] bs = Some bs"
| "broadcast_rev as [] = Some as"
| "broadcast_rev (a # as) (b # bs) =
     (if a = b \<or> b = 1 then map_option ((#) a) (broadcast_rev as bs)
      else if a = 1 then map_option ((#) b) (broadcast_rev as bs)
      else None)"

definition broadcast_shapes :: "nat list \<Rightarrow> nat list \<Rightarrow> nat list option" where
  \<comment> \<open>shapes are aligned at the last axis; two sizes are compatible when equal or when one is 1\<close>
  "broadcast_shapes s t = map_option rev (broadcast_rev (rev s) (rev t))"

fun broadcast_data :: "nat list \<Rightarrow> nat list \<Rightarrow> real list \<Rightarrow> real list" where
  "broadcast_data (s # ss) (t # ts) xs =
     concat (map (\<lambda>i. broadcast_data ss ts (chunk (prod_list ss) (if s = t then i else 0) xs)) [0..<t])"
| "broadcast_data ss ts xs = xs"

definition broadcast_to :: "array \<Rightarrow> nat list \<Rightarrow> real list" where
  \<comment> \<open>the elements of \<open>x\<close> broadcast to shape \<open>t\<close>; missing leading axes have size 1\<close>
  "broadcast_to x t = broadcast_data (replicate (length t - length (shape x)) 1 @ shape x) t (data x)"

definition jnp_sub :: "array \<Rightarrow> array \<Rightarrow> error + array" where
  "jnp_sub a b =
     (case broadcast_shapes (shape a) (shape b) of
        None \<Rightarrow>
          (if length (shape a) = length (shape b)
           then Inl (TypeError ''sub got incompatible shapes for broadcasting'')
           else Inl (ValueError ''Incompatible shapes for broadcasting''))
      | Some t \<Rightarrow> Inr \<lparr>shape = t, data = map2 (\<lambda>u v. u - v) (broadcast_to a t) (broadcast_to b t),
                     sharding = sharding a\<rparr>)"

definition jnp_square :: "array \<Rightarrow> array" where
  "jnp_square x = x\<lparr>data := map (\<lambda>v. v ^ 2) (data x)\<rparr>"

definition jnp_mean :: "array \<Rightarrow> scalar" where
  "jnp_mean x = (if data x = [] then NaN else Fin (sum_list (data x) / real (length (data x))))"

section \<open>The multilayer perceptron\<close>

record dense_params =
  kernel :: "real list list"
  bias :: "real list"

record variables =
  layers :: "dense_params list"
  output_layer :: dense_params

record mlp =
  n_layers :: nat
  hidden_dim :: nat
  output_dim :: nat

definition vecmat :: "nat \<Rightarrow> real list \<Rightarrow> real list list \<Rightarrow> real list" where
  "vecmat features r K =
     foldr (\<lambda>(v, krow) acc. map2 (\<lambda>a b. a + b) (map (\<lambda>w. v * w) krow) acc) (zip r K) (replicate features 0)"

definition dense_row :: "nat \<Rightarrow> dense_params \<Rightarrow> real list \<Rightarrow> real list" where
  "dense_row features dp r = map2 (\<lambda>a b. a + b) (vecmat features r (kernel dp)) (bias dp)"

definition dense :: "nat \<Rightarrow> dense_params \<Rightarrow> array \<Rightarrow> error + array" where
  \<comment> \<open>\<^verbatim>\<open>nn.Dense(features)\<close>: \<^verbatim>\<open>x @ kernel + bias\<close> along the last axis; the kernel
      has shape (inputs, features)\<close>
  "dense features dp x =
     (if shape x \<noteq> [] \<and> length (kernel dp) = last (shape x)
         \<and> list_all (\<lambda>krow. length krow = features) (kernel dp) \<and> length (bias dp) = features
      then Inr (row_map (dense_row features dp) features x)
      else Inl ShapeError)"

definition relu :: "array \<Rightarrow> array" where
  "relu x = x\<lparr>data := map (\<lambda>v. max v 0) (data x)\<rparr>"

fun hidden_layers :: "nat \<Rightarrow> dense_params list \<Rightarrow> array \<Rightarrow> error + array" where
  "hidden_layers h [] x = Inr x"
| "hidden_layers h (layer # ls) x =
     (case dense h layer x of Inl e \<Rightarrow> Inl e | Inr x' \<Rightarrow> hidden_layers h ls (relu x'))"

definition mlp_call :: "mlp \<Rightarrow> variables \<Rightarrow> array \<Rightarrow> error + array" where
  \<comment> \<open>\<^verbatim>\<open>MLP.__call__\<close> through \<^verbatim>\<open>model.apply\<close>; \<open>layers vs ! i\<close> holds the parameters
      of \<^verbatim>\<open>layers_i\<close>\<close>
  "mlp_call m vs x =
     (if length (layers vs) < n_layers m then Inl ShapeError
      else case hidden_layers (hidden_dim m) (take (n_layers m) (layers vs)) x of
             Inl e \<Rightarrow> Inl e
           | Inr x' \<Rightarrow> dense (output_dim m) (output_layer vs) x')"

section \<open>Training state\<close>

type_synonym grads = "real list"

record ('p, 'o) gradient_transformation =
  opt_init :: "'p \<Rightarrow> 'o"
  opt_update :: "grads \<Rightarrow> 'o \<Rightarrow> 'p \<Rightarrow> grads \<times> 'o"

record ('p, 'o) train_state =
  step :: nat
  apply_fn :: "'p \<Rightarrow> array \<Rightarrow> error + array"
  params :: 'p
  tx :: "('p, 'o) gradient_transformation"
  opt_state :: 'o

text \<open>
  What the notebook takes from its environment: the number of devices, the random
  initialiser of flax (\<^verbatim>\<open>model.init\<close>, which can raise: a layer without inputs makes
  the initialiser of its kernel divide by zero), the differentiation of JAX (the gradient,
  flattened to the list of its elements) and \<^verbatim>\<open>optax.apply_updates\<close>.
\<close>

record 'p framework =
  device_count :: nat
  model_init :: "nat \<Rightarrow> mlp \<Rightarrow> array \<Rightarrow> error + 'p"
  jax_grad :: "('p \<Rightarrow> error + scalar) \<Rightarrow> 'p \<Rightarrow> grads"
  apply_updates :: "'p \<Rightarrow> grads \<Rightarrow> 'p"

definition create :: "('p \<Rightarrow> array \<Rightarrow> error + array) \<Rightarrow> 'p \<Rightarrow> ('p, 'o) gradient_transformation
    \<Rightarrow> ('p, 'o) train_state" where
  \<comment> \<open>\<^verbatim>\<open>TrainState.create\<close>\<close>
  "create f p t = \<lparr>step = 0, apply_fn = f, params = p, tx = t, opt_state = opt_init t p\<rparr>"

definition apply_gradients :: "'p framework \<Rightarrow> ('p, 'o) train_state \<Rightarrow> grads \<Rightarrow> ('p, 'o) train_state" where
  \<comment> \<open>\<^verbatim>\<open>TrainState.apply_gradients\<close>: a new state, one step later\<close>
  "apply_gradients fw st g =
     (case opt_update (tx st) g (opt_state st) (params st) of
        (updates, new_opt_state) \<Rightarrow>
          st\<lparr>step := step st + 1, params := apply_updates fw (params st) updates,
             opt_state := new_opt_state\<rparr>)"

datatype ('p, 'o) pystate =
    State sharding "('p, 'o) train_state"
  | Stacked "('p, 'o) pystate list"

datatype compiled = Jit | Pmap string

section \<open>The notebook's variables\<close>

record 'o namespace =
  mode :: string
  optimizer :: "(variables, 'o) gradient_transformation"
  key :: nat
  batchsize :: nat
  input_dim :: nat
  batch_data :: array
  label_data :: array
  model :: mlp
  initialized_state :: "(variables, 'o) pystate"
  train_step_compiled :: "compiled option"

text \<open>
  Calls into the framework that touch the devices are logged in the order they are made.
\<close>

datatype event =
    PRNGKey | JnpOnes | ModelInit | TrainStateCreate | DevicePut | Replicate | JnpReshape | JaxJit
  | JaxPmap

type_synonym 'a run = "event list \<times> (error + 'a)"

definition ret :: "'a \<Rightarrow> 'a run" where
  "ret a = ([], Inr a)"

definition call :: "event \<Rightarrow> error + 'a \<Rightarrow> 'a run" where
  "call ev r = ([ev], r)"

definition bind :: "'a run \<Rightarrow> ('a \<Rightarrow> 'b run) \<Rightarrow> 'b run" where
  "bind m f =
     (case m of
        (es, Inl e) \<Rightarrow> (es, Inl e)
      | (es, Inr a) \<Rightarrow> (case f a of (es', r) \<Rightarrow> (es @ es', r)))"

subsection \<open>Model and state creation\<close>

definition init_fn :: "variables framework \<Rightarrow> nat \<Rightarrow> array \<Rightarrow> mlp
    \<Rightarrow> (variables, 'o) gradient_transformation \<Rightarrow> (variables, 'o) train_state run" where
  "init_fn fw k x m opt =
     bind (call ModelInit (model_init fw k m x)) (\<lambda>vs.
     call TrainStateCreate (Inr (create (mlp_call m) vs opt)))"

definition setup_cell :: "variables framework \<Rightarrow> string \<Rightarrow> (variables, 'o) gradient_transformation
    \<Rightarrow> nat \<Rightarrow> nat \<Rightarrow> nat \<Rightarrow> nat \<Rightarrow> 'o namespace run" where
  \<comment> \<open>the cell that sets \<^verbatim>\<open>mode\<close> and the sizes, creates the batch and initialises the state;
      the notebook has \<^verbatim>\<open>'jit_single'\<close>, 256 * 27, 1024, 2056 and 90 for the arguments\<close>
  "setup_cell fw md opt bs idim hdim nl =
     bind (call PRNGKey (Inr 0)) (\<lambda>k.
     bind (call JnpOnes (Inr (jnp_ones [bs, idim]))) (\<lambda>bd.
     bind (call JnpOnes (Inr (jnp_ones [bs, 10]))) (\<lambda>ld.
     let m = \<lparr>n_layers = nl, hidden_dim = hdim, output_dim = 10\<rparr> in
     bind (init_fn fw k bd m opt) (\<lambda>st.
     ret \<lparr>mode = md, optimizer = opt, key = k, batchsize = bs, input_dim = idim,
          batch_data = bd, label_data = ld, model = m,
          initialized_state = State SingleDeviceSharding st, train_step_compiled = None\<rparr>))))"

section \<open>The training step\<close>

text \<open>
  The step is staged: under \<^verbatim>\<open>jit\<close> and \<^verbatim>\<open>pmap\<close> its body is traced into a program,
  and a collective over a named axis is an instruction of that program whose operand is
  the value on this device and whose result comes from all devices.
\<close>

datatype ('g, 'a) staged =
    Return 'a
  | PMean string 'g "'g \<Rightarrow> 'a"

definition loss_fn :: "('p, 'o) train_state \<Rightarrow> 'p \<Rightarrow> array \<Rightarrow> array \<Rightarrow> error + scalar" where
  "loss_fn st p x y =
     (case apply_fn st p x of
        Inl e \<Rightarrow> Inl e
      | Inr y_pred \<Rightarrow>
          (case jnp_sub y_pred y of
             Inl e \<Rightarrow> Inl e
           | Inr d \<Rightarrow> Inr (jnp_mean (jnp_square d))))"

definition value_and_grad :: "'p framework \<Rightarrow> ('p \<Rightarrow> array \<Rightarrow> array \<Rightarrow> error + scalar)
    \<Rightarrow> 'p \<Rightarrow> array \<Rightarrow> array \<Rightarrow> error + scalar \<times> grads" where
  "value_and_grad fw f p x y =
     (case f p x y of
        Inl e \<Rightarrow> Inl e
      | Inr v \<Rightarrow> Inr (v, jax_grad fw (\<lambda>q. f q x y) p))"

definition train_step :: "variables framework \<Rightarrow> 'o namespace \<Rightarrow> (variables, 'o) train_state
    \<Rightarrow> array \<Rightarrow> array \<Rightarrow> error + (grads, (variables, 'o) train_state \<times> scalar) staged" where
  "train_step fw ns st x y =
     (case value_and_grad fw (loss_fn st) (params st) x y of
        Inl e \<Rightarrow> Inl e
      | Inr (loss, grads) \<Rightarrow>
          Inr (if mode ns = ''pmap''
               then PMean ''device'' grads (\<lambda>grads'. (apply_gradients fw st grads', loss))
               else Return (apply_gradients fw st grads, loss)))"

section \<open>Mode dispatch\<close>

definition mesh_sharding :: "nat \<Rightarrow> string list \<Rightarrow> sharding" where
  \<comment> \<open>the mesh has all devices along the one axis \<^verbatim>\<open>'data'\<close>\<close>
  "mesh_sharding n pspec = NamedSharding n [''data''] pspec"

definition device_put :: "array \<Rightarrow> sharding \<Rightarrow> error + array" where
  \<comment> \<open>a dimension that the partition spec splits over the mesh must be a multiple of the
      mesh size; if not, JAX raises a \<^verbatim>\<open>ValueError\<close>\<close>
  "device_put x s =
     (case s of
        SingleDeviceSharding \<Rightarrow> Inr (x\<lparr>sharding := s\<rparr>)
      | NamedSharding n axes spec \<Rightarrow>
          (if \<not> set spec \<subseteq> set axes then Inl (ValueError ''Resource axis'')
           else if length spec \<le> length (shape x)
              \<and> list_all (\<lambda>d. n dvd d) (take (length spec) (shape x))
           then Inr (x\<lparr>sharding := s\<rparr>)
           else Inl (ValueError ''One of device_put args was given the sharding'')))"

fun device_put_state :: "('p, 'o) pystate \<Rightarrow> sharding \<Rightarrow> ('p, 'o) pystate" where
  \<comment> \<open>used with the empty partition spec only, which splits no axis of any leaf\<close>
  "device_put_state (State _ st) s = State s st"
| "device_put_state (Stacked ss) s = Stacked (map (\<lambda>t. device_put_state t s) ss)"

definition replicate_state :: "nat \<Rightarrow> ('p, 'o) pystate \<Rightarrow> ('p, 'o) pystate" where
  \<comment> \<open>\<^verbatim>\<open>jax_utils.replicate\<close>: every leaf gets a leading axis with one copy per device\<close>
  "replicate_state n st = Stacked (replicate n st)"

definition floordiv :: "nat \<Rightarrow> nat \<Rightarrow> error + nat" where
  "floordiv a b = (if b = 0 then Inl ZeroDivisionError else Inr (a div b))"

definition dispatch_cell :: "variables framework \<Rightarrow> 'o namespace \<Rightarrow> 'o namespace run" where
  "dispatch_cell fw ns =
     (if mode ns = ''jit_multi'' then
        (let data_sharding = mesh_sharding (device_count fw) [''data''] in
         bind (call DevicePut (device_put (batch_data ns) data_sharding)) (\<lambda>bd.
         bind (call DevicePut (device_put (label_data ns) data_sharding)) (\<lambda>ld.
         bind (call DevicePut (Inr (device_put_state (initialized_state ns)
                                      (mesh_sharding (device_count fw) [])))) (\<lambda>st.
         bind (call JaxJit (Inr Jit)) (\<lambda>c.
         ret (ns\<lparr>batch_data := bd, label_data := ld, initialized_state := st,
                 train_step_compiled := Some c\<rparr>))))))
      else if mode ns = ''pmap'' then
        bind (call Replicate (Inr (replicate_state (device_count fw) (initialized_state ns)))) (\<lambda>st.
        bind ([], floordiv (batchsize ns) (device_count fw)) (\<lambda>k.
        bind (call JnpReshape (jnp_reshape (batch_data ns) [device_count fw, k, input_dim ns])) (\<lambda>bd.
        bind ([], floordiv (batchsize ns) (device_count fw)) (\<lambda>k'.
        bind (call JnpReshape (jnp_reshape (label_data ns) [device_count fw, k', 10])) (\<lambda>ld.
        bind (call JaxPmap (Inr (Pmap ''device''))) (\<lambda>c.
        ret (ns\<lparr>batch_data := bd, label_data := ld, initialized_state := st,
                train_step_compiled := Some c\<rparr>)))))))
      else if mode ns = ''jit_single'' then
        bind (call JaxJit (Inr Jit)) (\<lambda>c. ret (ns\<lparr>train_step_compiled := Some c\<rparr>))
      else ([], Inl (ValueError (''Unknown mode: '' @ mode ns))))"

section \<open>Calling the compiled step\<close>

fun collect :: "(error + 'a) list \<Rightarrow> error + 'a list" where
  \<comment> \<open>the first exception ends the run\<close>
  "collect [] = Inr []"
| "collect (r # rs) =
     (case r of
        Inl e \<Rightarrow> Inl e
      | Inr a \<Rightarrow> (case collect rs of Inl e \<Rightarrow> Inl e | Inr as \<Rightarrow> Inr (a # as)))"

definition pmean :: "grads list \<Rightarrow> grads" where
  \<comment> \<open>\<^verbatim>\<open>jax.lax.pmean\<close>: the mean over the devices, element by element\<close>
  "pmean gs =
     (case gs of
        [] \<Rightarrow> []
      | g # _ \<Rightarrow> map (\<lambda>j. sum_list (map (\<lambda>h. h ! j) gs) / real (length gs)) [0..<length g])"

fun operands :: "('g, 'a) staged \<Rightarrow> 'g list" where
  "operands (Return _) = []"
| "operands (PMean _ g _) = [g]"

fun finish :: "string option \<Rightarrow> 'g \<Rightarrow> ('g, 'a) staged \<Rightarrow> error + 'a" where
  \<comment> \<open>a collective needs its axis name bound by an enclosing \<^verbatim>\<open>pmap\<close>\<close>
  "finish _ _ (Return v) = Inr v"
| "finish bound m (PMean a _ k) =
     (if bound = Some a then Inr (k m) else Inl (NameError (''unbound axis name: '' @ a)))"

datatype ('p, 'o) step_result =
    One "('p, 'o) train_state" scalar
  | PerDevice "('p, 'o) train_state list" "scalar list"

definition call_jit :: "variables framework \<Rightarrow> 'o namespace \<Rightarrow> (variables, 'o) pystate
    \<Rightarrow> array \<Rightarrow> array \<Rightarrow> error + (variables, 'o) step_result" where
  \<comment> \<open>\<^verbatim>\<open>jax.jit(train_step)(state, x, y)\<close>: the values do not depend on where the
      arguments are placed\<close>
  "call_jit fw ns s x y =
     (case s of
        Stacked _ \<Rightarrow> Inl ShapeError
      | State _ st \<Rightarrow>
          (case train_step fw ns st x y of
             Inl e \<Rightarrow> Inl e
           | Inr prog \<Rightarrow>
               (case finish None [] prog of
                  Inl e \<Rightarrow> Inl e
                | Inr (st', loss) \<Rightarrow> Inr (One st' loss))))"

definition call_pmap :: "variables framework \<Rightarrow> 'o namespace \<Rightarrow> string \<Rightarrow> (variables, 'o) pystate
    \<Rightarrow> array \<Rightarrow> array \<Rightarrow> error + (variables, 'o) step_result" where
  \<comment> \<open>\<^verbatim>\<open>jax.pmap(train_step, axis_name, in_axes=(0, 0, 0))(state, x, y)\<close>: device \<open>i\<close>
      runs the step on the \<open>i\<close>-th slice of every argument, the results are stacked\<close>
  "call_pmap fw ns axis_name s x y =
     (case s of
        State _ _ \<Rightarrow> Inl (ValueError ''pmap was requested to map its argument along axis 0'')
      | Stacked ss \<Rightarrow>
          (if shape x = [] \<or> shape y = []
           then Inl (ValueError ''pmap was requested to map its argument along axis 0'')
           else if hd (shape x) \<noteq> length ss \<or> hd (shape y) \<noteq> length ss
           then Inl (ValueError ''pmap got inconsistent sizes for array axes to be mapped'')
           else if device_count fw < length ss
           then Inl (ValueError ''compiling computation that requires more devices'')
           else
             (case collect (map (\<lambda>i. case ss ! i of
                                        Stacked _ \<Rightarrow> Inl ShapeError
                                      | State _ st \<Rightarrow> train_step fw ns st (index0 x i) (index0 y i))
                                [0..<length ss]) of
                Inl e \<Rightarrow> Inl e
              | Inr progs \<Rightarrow>
                  (case collect (map (finish (Some axis_name) (pmean (concat (map operands progs)))) progs) of
                     Inl e \<Rightarrow> Inl e
                   | Inr rs \<Rightarrow> Inr (PerDevice (map fst rs) (map snd rs))))))"

definition call_compiled :: "variables framework \<Rightarrow> 'o namespace \<Rightarrow> compiled \<Rightarrow> (variables, 'o) pystate
    \<Rightarrow> array \<Rightarrow> array \<Rightarrow> error + (variables, 'o) step_result" where
  "call_compiled fw ns c s x y =
     (case c of Jit \<Rightarrow> call_jit fw ns s x y | Pmap axis_name \<Rightarrow> call_pmap fw ns axis_name s x y)"

definition step_cell :: "variables framework \<Rightarrow> 'o namespace \<Rightarrow> error + (variables, 'o) step_result" where
  \<comment> \<open>\<^verbatim>\<open>state, loss = train_step_compiled(initialized_state, batch_data, label_data)\<close>\<close>
  "step_cell fw ns =
     (case train_step_compiled ns of
        None \<Rightarrow> Inl (NameError ''train_step_compiled'')
      | Some c \<Rightarrow> call_compiled fw ns c (initialized_state ns) (batch_data ns) (label_data ns))"

definition run_notebook :: "variables framework \<Rightarrow> string \<Rightarrow> (variables, 'o) gradient_transformation
    \<Rightarrow> nat \<Rightarrow> nat \<Rightarrow> nat \<Rightarrow> nat \<Rightarrow> 'o namespace run" where
  \<comment> \<open>the cells in their order, up to the dispatch\<close>
  "run_notebook fw md opt bs idim hdim nl = bind (setup_cell fw md opt bs idim hdim nl) (dispatch_cell fw)"

definition losses :: "error + ('p, 'o) step_result \<Rightarrow> error + scalar list" where
  \<comment> \<open>the elements of the returned \<^verbatim>\<open>loss\<close>\<close>
  "losses r =
     (case r of
        Inl e \<Rightarrow> Inl e
      | Inr (One _ l) \<Rightarrow> Inr [l]
      | Inr (PerDevice _ ls) \<Rightarrow> Inr ls)"

definition valid_modes :: "string set" where
  "valid_modes = {''jit_single'', ''jit_multi'', ''pmap''}"


definition run_cells :: "variables framework \<Rightarrow> string \<Rightarrow> (variables, 'o) gradient_transformation
    \<Rightarrow> nat \<Rightarrow> nat \<Rightarrow> nat \<Rightarrow> nat \<Rightarrow> error + (variables, 'o) step_result" where
  \<comment> \<open>the cells in their order, through the first call of the compiled step\<close>
  "run_cells fw md opt bs idim hdim nl =
     (case snd (run_notebook fw md opt bs idim hdim nl) of
        Inl e \<Rightarrow> Inl e
      | Inr ns \<Rightarrow> step_cell fw ns)"

definition as_created :: "'o namespace \<Rightarrow> bool" where
  \<comment> \<open>batch and labels have the shapes the setup cell gives them\<close>
  "as_created ns \<longleftrightarrow>
     shape (batch_data ns) = [batchsize ns, input_dim ns]
     \<and> shape (label_data ns) = [batchsize ns, 10]"

section \<open>The step on state objects\<close>

text \<open>
  Python passes the training state by reference. Here the state objects live in a heap,
  a reference is an index into it, and \<^verbatim>\<open>apply_gradients\<close> (which ends in
  \<^verbatim>\<open>self.replace(...)\<close>) allocates its result.
\<close>

type_synonym ('p, 'o) heap = "('p, 'o) train_state list"

definition apply_gradients_obj :: "'p framework \<Rightarrow> ('p, 'o) heap \<Rightarrow> nat \<Rightarrow> grads
    \<Rightarrow> ('p, 'o) heap \<times> nat" where
  "apply_gradients_obj fw h self g = (h @ [apply_gradients fw (h ! self) g], length h)"

definition train_step_obj :: "variables framework \<Rightarrow> 'o namespace \<Rightarrow> (variables, 'o) heap \<Rightarrow> nat
    \<Rightarrow> array \<Rightarrow> array \<Rightarrow> error + (grads, ((variables, 'o) heap \<times> nat) \<times> scalar) staged" where
  \<comment> \<open>\<open>state\<close> is a reference into \<open>h\<close>; the result holds the heap after the call and
      the reference bound to the local name \<^verbatim>\<open>state\<close> at the \<^verbatim>\<open>return\<close>\<close>
  "train_step_obj fw ns h state x y =
     (case value_and_grad fw (loss_fn (h ! state)) (params (h ! state)) x y of
        Inl e \<Rightarrow> Inl e
      | Inr (loss, grads) \<Rightarrow>
          Inr (if mode ns = ''pmap''
               then PMean ''device'' grads (\<lambda>grads'. (apply_gradients_obj fw h state grads', loss))
               else Return (apply_gradients_obj fw h state grads, loss)))"

fun map_staged :: "('a \<Rightarrow> 'b) \<Rightarrow> ('g, 'a) staged \<Rightarrow> ('g, 'b) staged" where
  "map_staged f (Return v) = Return (f v)"
| "map_staged f (PMean a g k) = PMean a g (\<lambda>m. f (k m))"

section \<open>Notions used in the statements\<close>

definition sq_errors :: "(real list \<Rightarrow> real list) \<Rightarrow> array \<Rightarrow> array \<Rightarrow> real list" where
  \<comment> \<open>the elements of \<^verbatim>\<open>(y_pred - y) ** 2\<close> for a model that maps the rows of \<open>x\<close> by \<open>F\<close>\<close>
  "sq_errors F x y = map2 (\<lambda>u v. (u - v) ^ 2) (concat (map F (rows_of x))) (data y)"




section \<open>Concrete inputs\<close>

text \<open>
  A model without hidden layers, one input and ten outputs, on two devices; a batch of two
  rows. The initialiser gives a kernel of ones and fails without inputs; the optimizer
  passes the gradient on as the update. The values of the gradient play no part in what is
  evaluated with these.
\<close>

definition ex_model :: mlp where
  "ex_model = \<lparr>n_layers = 0, hidden_dim = 1, output_dim = 10\<rparr>"

definition ex_vars :: "real \<Rightarrow> variables" where
  "ex_vars w = \<lparr>layers = [], output_layer = \<lparr>kernel = [[w, w, w, w, w, w, w, w, w, w]],
                                              bias = [0, 0, 0, 0, 0, 0, 0, 0, 0, 0]\<rparr>\<rparr>"

definition ex_fw :: "variables framework" where
  "ex_fw = \<lparr>device_count = 2,
            model_init = (\<lambda>k m x. if shape x = [] \<or> last (shape x) = 0 then Inl ZeroDivisionError
                                  else Inr (ex_vars 1)),
            jax_grad = (\<lambda>f p. []), apply_updates = (\<lambda>p u. p)\<rparr>"

definition ex_opt :: "(variables, unit) gradient_transformation" where
  "ex_opt = \<lparr>opt_init = (\<lambda>p. ()), opt_update = (\<lambda>g s p. (g, s))\<rparr>"

definition ex_state :: "(variables, unit) train_state" where
  "ex_state = create (mlp_call ex_model) (ex_vars 1) ex_opt"

definition ex_x :: array where
  "ex_x = \<lparr>shape = [2, 1], data = [0, 2], sharding = SingleDeviceSharding\<rparr>"

definition ex_y :: array where
  "ex_y = \<lparr>shape = [2, 10], data = [0, 0, 0, 0, 0, 0, 0, 0, 0, 0, 0, 0, 0, 0, 0, 0, 0, 0, 0, 0],
           sharding = SingleDeviceSharding\<rparr>"

definition ex_ns :: "string \<Rightarrow> unit namespace" where
  "ex_ns md = \<lparr>mode = md, optimizer = ex_opt, key = 0, batchsize = 2, input_dim = 1,
      batch_data = ex_x, label_data = ex_y, model = ex_model,
      initialized_state = State SingleDeviceSharding ex_state, train_step_compiled = None\<rparr>"





section \<open>Evaluation of the cells\<close>

lemmas run_defs = bind_def call_def ret_def

lemma step_apply_gradients: "step (apply_gradients fw st g) = Suc (step st)"
  by (simp add: apply_gradients_def split: prod.splits)

lemma train_step_obj_value:
  "train_step fw ns (h ! r) x y =
     map_sum id (map_staged (\<lambda>((h', r'), l). (h' ! r', l))) (train_step_obj fw ns h r x y)"
  by (simp add: train_step_def train_step_obj_def apply_gradients_obj_def
      split: sum.splits prod.splits)

lemma setup_cell_namespace:
  assumes "snd (setup_cell fw md opt bs idim hdim nl) = Inr ns"
  shows "mode ns = md \<and> batchsize ns = bs \<and> input_dim ns = idim
     \<and> shape (batch_data ns) = [bs, idim] \<and> length (data (batch_data ns)) = bs * idim
     \<and> shape (label_data ns) = [bs, 10] \<and> length (data (label_data ns)) = bs * 10
     \<and> output_dim (model ns) = 10 \<and> train_step_compiled ns = None
     \<and> (\<exists>st. initialized_state ns = State SingleDeviceSharding st \<and> apply_fn st = mlp_call (model ns))"
  using assms
  by (auto simp: setup_cell_def init_fn_def run_defs Let_def jnp_ones_def create_def
      split: sum.splits)

section \<open>The branches of the dispatch\<close>

lemma sum_eq_Inl: "isl r \<Longrightarrow> projl r = e \<Longrightarrow> r = Inl e"
  by (cases r) simp_all

lemma mult_div_eq_iff_dvd: "0 < (d::nat) \<Longrightarrow> d * (n div d) = n \<longleftrightarrow> d dvd n"
  by (metis dvd_mult_div_cancel dvd_triv_left)

lemma dispatch_jit_single:
  "mode ns = ''jit_single'' \<Longrightarrow> snd (dispatch_cell fw ns) = Inr (ns\<lparr>train_step_compiled := Some Jit\<rparr>)"
  by (simp add: dispatch_cell_def run_defs)

lemma dispatch_jit_multi:
  assumes "mode ns = ''jit_multi''" and "as_created ns"
  shows "snd (dispatch_cell fw ns) =
     (if device_count fw dvd batchsize ns
      then Inr (ns\<lparr>batch_data := (batch_data ns)\<lparr>sharding := mesh_sharding (device_count fw) [''data'']\<rparr>,
                   label_data := (label_data ns)\<lparr>sharding := mesh_sharding (device_count fw) [''data'']\<rparr>,
                   initialized_state := device_put_state (initialized_state ns)
                                          (mesh_sharding (device_count fw) []),
                   train_step_compiled := Some Jit\<rparr>)
      else Inl (ValueError ''One of device_put args was given the sharding''))"
  using assms
  by (simp add: dispatch_cell_def run_defs device_put_def mesh_sharding_def Let_def as_created_def)

lemma dispatch_pmap:
  assumes "mode ns = ''pmap''" and "as_created ns" and "0 < device_count fw"
  shows "snd (dispatch_cell fw ns) =
     (if device_count fw dvd batchsize ns
      then Inr (ns\<lparr>batch_data := (batch_data ns)\<lparr>shape := [device_count fw,
                                     batchsize ns div device_count fw, input_dim ns]\<rparr>,
                   label_data := (label_data ns)\<lparr>shape := [device_count fw,
                                     batchsize ns div device_count fw, 10]\<rparr>,
                   initialized_state := replicate_state (device_count fw) (initialized_state ns),
                   train_step_compiled := Some (Pmap ''device'')\<rparr>)
      else Inl (TypeError ''cannot reshape array''))"
proof -
  have "device_count fw * (batchsize ns div device_count fw) = batchsize ns
      \<longleftrightarrow> device_count fw dvd batchsize ns"
    using assms(3) by (rule mult_div_eq_iff_dvd)
  then show ?thesis
    using assms
    by (auto simp: dispatch_cell_def run_defs floordiv_def jnp_reshape_def as_created_def)
qed

section \<open>Lists in chunks\<close>




















section \<open>The loss of a row-wise model\<close>












section \<open>Running the step in each mode\<close>


lemma collect_Inr [simp]: "collect (map (\<lambda>x. Inr (g x)) xs) = Inr (map g xs)"
  by (induction xs) simp_all

lemma sq_errors_sharding [simp]:
  "sq_errors F (x\<lparr>sharding := s\<rparr>) (y\<lparr>sharding := s'\<rparr>) = sq_errors F x y"
  by (simp add: sq_errors_def rows_of_def)



section \<open>Gradients\<close>




section \<open>The model maps rows\<close>










section \<open>The three modes and the gradient for a row-wise model\<close>



section \<open>Concrete runs\<close>


lemma ex_loss: "loss_fn ex_state (params ex_state) ex_x ex_y = Inr (Fin 2)"
  by code_simp


section \<open>The claims\<close>






text \<open>
  C3, as stated: an unknown mode raises the error of the dispatch, and for each of the three
  known modes no error is raised. With three rows on two devices the \<^verbatim>\<open>jit_multi\<close> branch
  raises inside \<^verbatim>\<open>jax.device_put\<close>, and what JAX raises there is a \<^verbatim>\<open>ValueError\<close> too.
\<close>

theorem jit_multi_uneven_batch_raises:
  "run_notebook ex_fw ''jit_multi'' ex_opt 3 1 1 0
     = ([PRNGKey, JnpOnes, JnpOnes, ModelInit, TrainStateCreate, DevicePut],
        Inl (ValueError ''One of device_put args was given the sharding''))"
proof -
  have "fst (run_notebook ex_fw ''jit_multi'' ex_opt 3 1 1 0)
        = [PRNGKey, JnpOnes, JnpOnes, ModelInit, TrainStateCreate, DevicePut]
      \<and> isl (snd (run_notebook ex_fw ''jit_multi'' ex_opt 3 1 1 0))
      \<and> projl (snd (run_notebook ex_fw ''jit_multi'' ex_opt 3 1 1 0))
        = ValueError ''One of device_put args was given the sharding''"
    by code_simp
  then show ?thesis
    by (simp add: prod_eq_iff sum_eq_Inl)
qed

text \<open>
  C3, amended: a mode string other than the three known ones makes the dispatch raise
  \<^verbatim>\<open>ValueError('Unknown mode: ...')\<close> with that mode, before any call into the framework;
  for the three known ones this error is never raised, so it is the only error of the
  notebook's own. With the batch as the setup cell creates it and at least one device, a
  known mode ends without any error exactly when it is \<^verbatim>\<open>jit_single\<close> or the batch size is
  a multiple of the number of devices; otherwise \<^verbatim>\<open>jit_multi\<close> ends in the
  \<^verbatim>\<open>ValueError\<close> of \<^verbatim>\<open>jax.device_put\<close> and \<^verbatim>\<open>pmap\<close> in the \<^verbatim>\<open>TypeError\<close> of
  \<^verbatim>\<open>jnp.reshape\<close>.
\<close>

theorem dispatch_value_error_iff:
  "(mode ns \<notin> valid_modes \<longrightarrow>
      dispatch_cell fw ns = ([], Inl (ValueError (''Unknown mode: '' @ mode ns))))
   \<and> (mode ns \<in> valid_modes \<longrightarrow>
        (\<forall>m. snd (dispatch_cell fw ns) \<noteq> Inl (ValueError (''Unknown mode: '' @ m))))
   \<and> (mode ns \<in> valid_modes \<and> as_created ns \<and> 0 < device_count fw \<longrightarrow>
        ((\<exists>ns'. snd (dispatch_cell fw ns) = Inr ns')
           \<longleftrightarrow> mode ns = ''jit_single'' \<or> device_count fw dvd batchsize ns)
        \<and> (mode ns = ''jit_multi'' \<and> \<not> device_count fw dvd batchsize ns \<longrightarrow>
             snd (dispatch_cell fw ns)
               = Inl (ValueError ''One of device_put args was given the sharding''))
        \<and> (mode ns = ''pmap'' \<and> \<not> device_count fw dvd batchsize ns \<longrightarrow>
             snd (dispatch_cell fw ns) = Inl (TypeError ''cannot reshape array'')))"
proof (intro conjI impI)
  assume "mode ns \<notin> valid_modes"
  then show "dispatch_cell fw ns = ([], Inl (ValueError (''Unknown mode: '' @ mode ns)))"
    by (simp add: dispatch_cell_def valid_modes_def)
next
  assume "mode ns \<in> valid_modes"
  then show "\<forall>m. snd (dispatch_cell fw ns) \<noteq> Inl (ValueError (''Unknown mode: '' @ m))"
    by (auto simp: dispatch_cell_def valid_modes_def run_defs floordiv_def jnp_reshape_def
        device_put_def mesh_sharding_def Let_def split: if_splits sum.splits prod.splits)
next
  assume a: "mode ns \<in> valid_modes \<and> as_created ns \<and> 0 < device_count fw"
  then show "(\<exists>ns'. snd (dispatch_cell fw ns) = Inr ns')
      \<longleftrightarrow> mode ns = ''jit_single'' \<or> device_count fw dvd batchsize ns"
    by (auto simp: dispatch_pmap dispatch_jit_multi dispatch_jit_single valid_modes_def)
next
  assume a: "mode ns \<in> valid_modes \<and> as_created ns \<and> 0 < device_count fw"
  assume "mode ns = ''jit_multi'' \<and> \<not> device_count fw dvd batchsize ns"
  with a show "snd (dispatch_cell fw ns)
      = Inl (ValueError ''One of device_put args was given the sharding'')"
    by (simp add: dispatch_jit_multi)
next
  assume a: "mode ns \<in> valid_modes \<and> as_created ns \<and> 0 < device_count fw"
  assume "mode ns = ''pmap'' \<and> \<not> device_count fw dvd batchsize ns"
  with a show "snd (dispatch_cell fw ns) = Inl (TypeError ''cannot reshape array'')"
    by (simp add: dispatch_pmap)
qed

text \<open>
  C3, witness: the unknown mode \<^verbatim>\<open>'foo'\<close>, and \<^verbatim>\<open>'pmap'\<close> with two rows on two devices.
\<close>

theorem dispatch_value_error_iff_witness:
  "mode (ex_ns ''foo'') \<notin> valid_modes
   \<and> dispatch_cell ex_fw (ex_ns ''foo'') = ([], Inl (ValueError (''Unknown mode: '' @ mode (ex_ns ''foo''))))
   \<and> mode (ex_ns ''pmap'') \<in> valid_modes \<and> as_created (ex_ns ''pmap'') \<and> 0 < device_count ex_fw
   \<and> device_count ex_fw dvd batchsize (ex_ns ''pmap'')
   \<and> (\<forall>m. snd (dispatch_cell ex_fw (ex_ns ''pmap'')) \<noteq> Inl (ValueError (''Unknown mode: '' @ m)))
   \<and> (\<exists>ns'. snd (dispatch_cell ex_fw (ex_ns ''pmap'')) = Inr ns')"
proof -
  have h1: "mode (ex_ns ''foo'') \<notin> valid_modes"
    by (simp add: ex_ns_def valid_modes_def)
  have h2: "mode (ex_ns ''pmap'') \<in> valid_modes"
    by (simp add: ex_ns_def valid_modes_def)
  have h3: "as_created (ex_ns ''pmap'')"
    by (simp add: as_created_def ex_ns_def ex_x_def ex_y_def)
  have h4: "0 < device_count ex_fw"
    by (simp add: ex_fw_def)
  have h5: "device_count ex_fw dvd batchsize (ex_ns ''pmap'')"
    by (simp add: ex_fw_def ex_ns_def)
  note foo = dispatch_value_error_iff [of "ex_ns ''foo''" ex_fw]
  note pm = dispatch_value_error_iff [of "ex_ns ''pmap''" ex_fw]
  have c1: "dispatch_cell ex_fw (ex_ns ''foo'')
      = ([], Inl (ValueError (''Unknown mode: '' @ mode (ex_ns ''foo''))))"
    using foo h1 by blast
  have c2: "\<forall>m. snd (dispatch_cell ex_fw (ex_ns ''pmap'')) \<noteq> Inl (ValueError (''Unknown mode: '' @ m))"
    using pm h2 by blast
  have c3: "\<exists>ns'. snd (dispatch_cell ex_fw (ex_ns ''pmap'')) = Inr ns'"
    using pm h2 h3 h4 h5 by blast
  show ?thesis
    by (intro conjI h1 h2 h3 h4 h5 c1 c2 c3)
qed

text \<open>
  C4, as stated: with an unknown mode the error comes before any device work. The mode is
  only looked at in the dispatch cell; the cell before it has by then created the random
  key and the two arrays of the batch, initialised the model and created the training state.
\<close>

theorem unknown_mode_after_device_work:
  "run_notebook ex_fw ''foo'' ex_opt 2 1 1 0
     = ([PRNGKey, JnpOnes, JnpOnes, ModelInit, TrainStateCreate], Inl (ValueError ''Unknown mode: foo''))"
proof -
  have "fst (run_notebook ex_fw ''foo'' ex_opt 2 1 1 0)
        = [PRNGKey, JnpOnes, JnpOnes, ModelInit, TrainStateCreate]
      \<and> isl (snd (run_notebook ex_fw ''foo'' ex_opt 2 1 1 0))
      \<and> projl (snd (run_notebook ex_fw ''foo'' ex_opt 2 1 1 0)) = ValueError ''Unknown mode: foo''"
    by code_simp
  then show ?thesis
    by (simp add: prod_eq_iff sum_eq_Inl)
qed

text \<open>
  C4, amended: with an unknown mode, when the setup cell ends without error, the error of
  the dispatch comes after that cell has created the key and the batch and initialised
  model and state, and before any device work of the dispatch cell (no placement,
  replication, reshape, \<^verbatim>\<open>jit\<close> or \<^verbatim>\<open>pmap\<close>); when the setup cell itself raises (as
  \<^verbatim>\<open>model.init\<close> does for a layer without inputs), the run ends there and the dispatch is
  not reached.
\<close>

theorem unknown_mode_error_after_setup:
  "md \<notin> valid_modes \<Longrightarrow>
     (\<forall>ns. snd (setup_cell fw md opt bs idim hdim nl) = Inr ns \<longrightarrow>
        run_notebook fw md opt bs idim hdim nl =
          ([PRNGKey, JnpOnes, JnpOnes, ModelInit, TrainStateCreate],
           Inl (ValueError (''Unknown mode: '' @ md)))
        \<and> fst (run_notebook fw md opt bs idim hdim nl) = fst (setup_cell fw md opt bs idim hdim nl))
     \<and> (\<forall>e. snd (setup_cell fw md opt bs idim hdim nl) = Inl e \<longrightarrow>
          run_notebook fw md opt bs idim hdim nl = ([PRNGKey, JnpOnes, JnpOnes, ModelInit], Inl e))"
  by (auto simp: run_notebook_def setup_cell_def init_fn_def dispatch_cell_def run_defs Let_def
      valid_modes_def split: sum.splits)

text \<open>
  C4, witness: the unknown mode \<^verbatim>\<open>'tpu'\<close>, with one input, where the setup cell ends without
  error, and without inputs, where the initialiser raises.
\<close>

theorem unknown_mode_error_after_setup_witness:
  "''tpu'' \<notin> valid_modes
   \<and> (\<exists>ns. snd (setup_cell ex_fw ''tpu'' ex_opt 2 1 1 0) = Inr ns)
   \<and> run_notebook ex_fw ''tpu'' ex_opt 2 1 1 0 =
       ([PRNGKey, JnpOnes, JnpOnes, ModelInit, TrainStateCreate],
        Inl (ValueError (''Unknown mode: '' @ ''tpu'')))
   \<and> snd (setup_cell ex_fw ''tpu'' ex_opt 2 0 1 0) = Inl ZeroDivisionError
   \<and> run_notebook ex_fw ''tpu'' ex_opt 2 0 1 0 = ([PRNGKey, JnpOnes, JnpOnes, ModelInit], Inl ZeroDivisionError)"
proof -
  have h: "''tpu'' \<notin> valid_modes"
    by (simp add: valid_modes_def)
  have ok: "\<exists>ns. snd (setup_cell ex_fw ''tpu'' ex_opt 2 1 1 0) = Inr ns"
    by (simp add: setup_cell_def init_fn_def run_defs Let_def ex_fw_def jnp_ones_def)
  have bad: "snd (setup_cell ex_fw ''tpu'' ex_opt 2 0 1 0) = Inl ZeroDivisionError"
    by (simp add: setup_cell_def init_fn_def run_defs Let_def ex_fw_def jnp_ones_def)
  note a = unknown_mode_error_after_setup [OF h, of ex_fw ex_opt 2 1 1 0]
  note b = unknown_mode_error_after_setup [OF h, of ex_fw ex_opt 2 0 1 0]
  have c1: "run_notebook ex_fw ''tpu'' ex_opt 2 1 1 0 =
       ([PRNGKey, JnpOnes, JnpOnes, ModelInit, TrainStateCreate],
        Inl (ValueError (''Unknown mode: '' @ ''tpu'')))"
    using a ok by blast
  have c2: "run_notebook ex_fw ''tpu'' ex_opt 2 0 1 0 = ([PRNGKey, JnpOnes, JnpOnes, ModelInit], Inl ZeroDivisionError)"
    using b bad by blast
  show ?thesis
    by (intro conjI h ok c1 bad c2)
qed

text \<open>
  C5: whenever the loss can be computed, the staged step holds a \<^verbatim>\<open>pmean\<close> over the
  axis \<^verbatim>\<open>'device'\<close> if and only if the mode is \<^verbatim>\<open>'pmap'\<close>, with the gradient of
  \<^verbatim>\<open>value_and_grad\<close> for its operand and its result for the gradient that is applied;
  in every other mode the gradient of \<^verbatim>\<open>value_and_grad\<close> itself is applied.
\<close>

theorem pmean_iff_pmap:
  assumes "loss_fn st (params st) x y = Inr l"
  shows "\<exists>prog. train_step fw ns st x y = Inr prog
     \<and> (operands prog \<noteq> [] \<longleftrightarrow> mode ns = ''pmap'')
     \<and> (mode ns = ''pmap'' \<longrightarrow>
          prog = PMean ''device'' (jax_grad fw (\<lambda>q. loss_fn st q x y) (params st))
                   (\<lambda>grads'. (apply_gradients fw st grads', l)))
     \<and> (mode ns \<noteq> ''pmap'' \<longrightarrow>
          prog = Return (apply_gradients fw st (jax_grad fw (\<lambda>q. loss_fn st q x y) (params st)), l))"
  using assms by (simp add: train_step_def value_and_grad_def)

text \<open>
  C5, witness: the concrete state and batch, under \<^verbatim>\<open>'pmap'\<close> and under
  \<^verbatim>\<open>'jit_multi'\<close>.
\<close>

theorem pmean_iff_pmap_witness:
  "loss_fn ex_state (params ex_state) ex_x ex_y = Inr (Fin 2)
   \<and> (\<exists>prog. train_step ex_fw (ex_ns ''pmap'') ex_state ex_x ex_y = Inr prog \<and> operands prog \<noteq> [])
   \<and> (\<exists>prog. train_step ex_fw (ex_ns ''jit_multi'') ex_state ex_x ex_y = Inr prog \<and> operands prog = [])"
proof -
  have h: "loss_fn ex_state (params ex_state) ex_x ex_y = Inr (Fin 2)"
    by code_simp
  have m: "mode (ex_ns ''pmap'') = ''pmap''" "mode (ex_ns ''jit_multi'') \<noteq> ''pmap''"
    by (simp_all add: ex_ns_def)
  show ?thesis
    using h m pmean_iff_pmap [OF h, of ex_fw "ex_ns ''pmap''"]
      pmean_iff_pmap [OF h, of ex_fw "ex_ns ''jit_multi''"]
    by auto
qed




text \<open>
  C7: the step does not change the state object it is given. With the states in a heap and
  \<open>r\<close> the reference passed in: after the step the object at \<open>r\<close> and every other object
  that existed before are as they were, exactly one object has been added, the returned
  reference is that new object, and it is \<^verbatim>\<open>apply_gradients\<close> of the input state, one
  step later.
\<close>

theorem train_step_leaves_input_state:
  assumes "r < length h"
    and "loss_fn (h ! r) (params (h ! r)) x y = Inr l"
  shows "\<exists>prog. train_step_obj fw ns h r x y = Inr prog
     \<and> (\<forall>b m h' r' l'. finish b m prog = Inr ((h', r'), l') \<longrightarrow>
          h' ! r = h ! r \<and> take (length h) h' = h \<and> length h' = Suc (length h) \<and> r' = length h
          \<and> h' ! r' = apply_gradients fw (h ! r)
               (if mode ns = ''pmap'' then m
                else jax_grad fw (\<lambda>q. loss_fn (h ! r) q x y) (params (h ! r)))
          \<and> step (h' ! r') = Suc (step (h ! r)))"
  using assms
  by (auto simp: train_step_obj_def value_and_grad_def apply_gradients_obj_def step_apply_gradients
      nth_append split: if_splits)

text \<open>
  C7, witness: a heap that holds the concrete state only.
\<close>

theorem train_step_leaves_input_state_witness:
  "(0::nat) < length [ex_state]
   \<and> loss_fn ([ex_state] ! 0) (params ([ex_state] ! 0)) ex_x ex_y = Inr (Fin 2)
   \<and> (\<exists>prog. train_step_obj ex_fw (ex_ns ''jit_single'') [ex_state] 0 ex_x ex_y = Inr prog
        \<and> (\<forall>b m h' r' l'. finish b m prog = Inr ((h', r'), l') \<longrightarrow>
              h' ! 0 = [ex_state] ! 0 \<and> take (length [ex_state]) h' = [ex_state]
              \<and> length h' = Suc (length [ex_state]) \<and> r' = length [ex_state]
              \<and> h' ! r' = apply_gradients ex_fw ([ex_state] ! 0)
                   (if mode (ex_ns ''jit_single'') = ''pmap'' then m
                    else jax_grad ex_fw (\<lambda>q. loss_fn ([ex_state] ! 0) q ex_x ex_y)
                           (params ([ex_state] ! 0)))
              \<and> step (h' ! r') = Suc (step ([ex_state] ! 0))))"
proof -
  have h1: "(0::nat) < length [ex_state]"
    by simp
  have h2: "loss_fn ([ex_state] ! 0) (params ([ex_state] ! 0)) ex_x ex_y = Inr (Fin 2)"
    by code_simp
  show ?thesis
    by (intro conjI h1 h2 train_step_leaves_input_state [OF h1 h2])
qed

text \<open>
  C8: under \<^verbatim>\<open>'jit_single'\<close> the dispatch makes one call, \<^verbatim>\<open>jax.jit\<close>, and changes
  nothing but \<^verbatim>\<open>train_step_compiled\<close>: state, batch and labels stay as they are.
\<close>

theorem jit_single_leaves_state_and_batch:
  "mode ns = ''jit_single'' \<Longrightarrow>
     dispatch_cell fw ns = ([JaxJit], Inr (ns\<lparr>train_step_compiled := Some Jit\<rparr>))"
  by (simp add: dispatch_cell_def run_defs)

text \<open>
  C8, witness: the concrete namespace.
\<close>

theorem jit_single_leaves_state_and_batch_witness:
  "mode (ex_ns ''jit_single'') = ''jit_single''
   \<and> dispatch_cell ex_fw (ex_ns ''jit_single'')
       = ([JaxJit], Inr ((ex_ns ''jit_single'')\<lparr>train_step_compiled := Some Jit\<rparr>))"
proof -
  have h: "mode (ex_ns ''jit_single'') = ''jit_single''"
    by (simp add: ex_ns_def)
  show ?thesis
    using h jit_single_leaves_state_and_batch [OF h, of ex_fw] by simp
qed




text \<open>
  C10, as stated: the loss returned by every step is non-negative. With \<^verbatim>\<open>batchsize = 0\<close>
  the notebook runs through, \<^verbatim>\<open>jnp.mean\<close> divides 0 by 0 and the loss is not a number.
\<close>

theorem loss_nan_on_empty_batch:
  "losses (run_cells ex_fw ''jit_single'' ex_opt 0 1 1 0) = Inr [NaN]"
  by code_simp

text \<open>
  C10, amended: the loss returned by a step is never a negative number: it is a non-negative
  value or not a number, and it is not a number when the array of differences between
  predictions and labels has no element.
\<close>

theorem loss_nonneg_or_nan:
  assumes "train_step fw ns st x y = Inr prog" and "finish b m prog = Inr (st', l)"
  shows "(l = NaN \<or> (\<exists>v. l = Fin v \<and> 0 \<le> v))
     \<and> (\<exists>y_pred d. apply_fn st (params st) x = Inr y_pred \<and> jnp_sub y_pred y = Inr d
           \<and> l = jnp_mean (jnp_square d) \<and> (data d = [] \<longrightarrow> l = NaN))"
proof -
  obtain l0 g where vg: "value_and_grad fw (loss_fn st) (params st) x y = Inr (l0, g)"
    using assms(1) by (auto simp: train_step_def split: sum.splits prod.splits)
  have l: "l = l0"
    using assms vg by (auto simp: train_step_def split: if_splits)
  have "loss_fn st (params st) x y = Inr l"
    using vg l by (auto simp: value_and_grad_def split: sum.splits)
  then obtain y_pred d where ap: "apply_fn st (params st) x = Inr y_pred"
    and sb: "jnp_sub y_pred y = Inr d" and lv: "l = jnp_mean (jnp_square d)"
    by (auto simp: loss_fn_def split: sum.splits)
  have nn: "l = NaN \<or> (\<exists>v. l = Fin v \<and> 0 \<le> v)"
    unfolding lv
    by (auto simp: jnp_mean_def jnp_square_def intro!: divide_nonneg_nonneg sum_list_nonneg)
  have em: "data d = [] \<longrightarrow> l = NaN"
    unfolding lv by (simp add: jnp_mean_def jnp_square_def)
  show ?thesis
    using ap sb lv nn em by blast
qed

text \<open>
  C10, witness: the concrete state and batch, with the loss 2.
\<close>

theorem loss_nonneg_or_nan_witness:
  "train_step ex_fw (ex_ns ''jit_single'') ex_state ex_x ex_y
     = Inr (Return (apply_gradients ex_fw ex_state [], Fin 2))
   \<and> finish None [] (Return (apply_gradients ex_fw ex_state [], Fin 2))
       = Inr (apply_gradients ex_fw ex_state [], Fin 2)
   \<and> (Fin 2 = NaN \<or> (\<exists>v. Fin 2 = Fin v \<and> 0 \<le> v))
   \<and> (\<exists>y_pred d. apply_fn ex_state (params ex_state) ex_x = Inr y_pred \<and> jnp_sub y_pred ex_y = Inr d
         \<and> Fin 2 = jnp_mean (jnp_square d) \<and> (data d = [] \<longrightarrow> Fin 2 = NaN))"
proof -
  have h1: "train_step ex_fw (ex_ns ''jit_single'') ex_state ex_x ex_y
      = Inr (Return (apply_gradients ex_fw ex_state [], Fin 2))"
    by (simp add: train_step_def value_and_grad_def ex_loss ex_ns_def) (simp add: ex_fw_def)
  have h2: "finish None [] (Return (apply_gradients ex_fw ex_state [], Fin 2))
      = Inr (apply_gradients ex_fw ex_state [], Fin 2)"
    by simp
  note t = loss_nonneg_or_nan [OF h1 h2]
  show ?thesis
    by (intro conjI h1 h2 t [THEN conjunct1] t [THEN conjunct2])
qed

end
